theory Spec2Isabelle
  imports Complex_Main
begin

section \<open>Pipe velocity calculator and velocimeter calibration (velocidad.py)\<close>

text \<open>
  The embedding follows the methods of class \<open>PipeVelocityCalculator\<close>. Python floats are
  modelled as HOL reals and \<open>math.pi\<close> as the real number \<open>pi\<close>. Arithmetic is exact
  inside the range of a double; the two places where leaving that range changes the
  control flow are modelled: the square \<open>(... / 2) ** 2\<close> raises \<open>OverflowError\<close>
  above the range and gives 0.0 below it, and the division by the area raises
  \<open>ZeroDivisionError\<close> on 0.0. Rounding inside the range, infinities (a product or
  quotient that overflows gives \<open>inf\<close> in Python, without an exception) and NaN are
  outside the model. Python ints (the combo box index, the point number) are \<open>int\<close>.
\<close>

subsection \<open>Data\<close>

text \<open>
  One entry of \<open>self.calibration_data\<close>: the dict with the keys \<open>'punto'\<close>,
  \<open>'velocidad_patron'\<close>, \<open>'velocidad_equipo'\<close> and \<open>'error'\<close>.
\<close>

record point =
  punto :: int
  velocidad_patron :: real
  velocidad_equipo :: real
  error :: real

text \<open>
  The five strings \<open>analyze_velocity\<close> returns, named by their upper-case word:
  "Velocidad BAJA - ...", "Velocidad OPTIMA para ...", "Velocidad ACEPTABLE - ...",
  "Velocidad ALTA - ...", "Velocidad MUY ALTA - ...".
\<close>

datatype regime = BAJA | OPTIMA | ACEPTABLE | ALTA | MUY_ALTA

text \<open>
  The texts of the message boxes, one constructor per string literal of the source
  (accents dropped in the names), and the three kinds of box that show them. The box
  of the last \<open>except\<close> clause shows "Error: " followed by the text of the exception:
  "float division by zero" for a \<open>ZeroDivisionError\<close>, "(34, 'Numerical result out of
  range')" for the \<open>OverflowError\<close> of a power, and \<open>Error_str_e\<close> stands for the text of
  any other exception.
\<close>

datatype msg =
    Por_favor_complete_todos_los_campos
  | Complete_todos_los_campos
  | Valores_invalidos
  | El_espesor_es_demasiado_grande
  | Espesor_demasiado_grande
  | Valores_numericos_invalidos
  | Error_float_division_by_zero
  | Error_Numerical_result_out_of_range
  | Error_str_e
  | Se_han_ingresado_10_puntos_Calibracion_completa
  | No_hay_datos_de_calibracion_para_exportar
  | Error_al_exportar

datatype dialog = Warning msg | Critical msg | Information msg

text \<open>
  What \<open>calculate_velocity\<close> writes to \<open>results_text\<close>: the three inputs, the
  intermediate values and the velocity with its analysis.
\<close>

record results =
  res_caudal :: real
  res_diametro_exterior :: real
  res_espesor :: real
  diametro_interior_mm :: real
  diametro_interior_m :: real
  area_m2 :: real
  caudal_m3_s :: real
  velocidad :: real
  analisis :: regime

text \<open>
  The part of \<open>self\<close> the modelled methods read and write: the line edits (their text),
  the two unit combo boxes (their current index), the results box and the list of
  calibration points. \<open>__init__\<close> starts with an empty list.
\<close>

record window =
  caudal_input :: string
  diametro_input :: string
  espesor_input :: string
  caudal_units :: int
  results_text :: "results option"
  calib_diametro :: string
  calib_espesor :: string
  calib_caudal :: string
  calib_velocidad_equipo :: string
  calib_caudal_units :: int
  calibration_data :: "point list"

text \<open>The dict \<open>statistics\<close> built by \<open>update_calibration_plot\<close>.\<close>

record statistics =
  mean_error :: real
  std_error :: real
  max_error :: real
  min_error :: real

subsection \<open>Built-ins\<close>

text \<open>
  \<open>str.strip()\<close>: leading and trailing whitespace removed. The ASCII whitespace of
  Python's \<open>str.isspace\<close> is modelled (tab to carriage return, the four separators
  0x1C to 0x1F, and space).
\<close>

definition isspace :: "char \<Rightarrow> bool" where
  "isspace c = (let n = of_char c :: nat in (9 \<le> n \<and> n \<le> 13) \<or> (28 \<le> n \<and> n \<le> 32))"

definition strip :: "string \<Rightarrow> string" where
  "strip s = rev (dropWhile isspace (rev (dropWhile isspace s)))"

text \<open>
  \<open>float(s)\<close> is a parameter of the model, written \<open>pyfloat\<close>: \<open>Some x\<close> when the text
  parses to the number \<open>x\<close>, \<open>None\<close> when \<open>float\<close> raises \<open>ValueError\<close>.
\<close>

type_synonym parser = "string \<Rightarrow> real option"

text \<open>
  The range of a double. \<open>2 ^ 1024\<close> is the first power of two above the largest
  double; a result that reaches it does not fit. \<open>2 ^ -1075\<close> is half the smallest
  positive double; a result at or below it rounds to 0.0.
\<close>

definition dbl_overflow :: real where
  "dbl_overflow = 2 ^ 1024"

definition dbl_underflow :: real where
  "dbl_underflow = 1 / 2 ^ 1075"

text \<open>
  \<open>x ** 2\<close> on a float: \<open>OverflowError\<close> when the square does not fit, 0.0 when it
  underflows (which Python does not report), the square otherwise.
\<close>

definition pow2 :: "real \<Rightarrow> msg + real" where
  "pow2 x =
     (if dbl_overflow \<le> x ^ 2 then Inl Error_Numerical_result_out_of_range
      else if x ^ 2 \<le> dbl_underflow then Inr 0
      else Inr (x ^ 2))"

text \<open>
  The two refreshes \<open>update_calibration_table()\<close> and \<open>update_calibration_plot()\<close> that
  \<open>add_calibration_point\<close> runs after the append draw with Qt, numpy and matplotlib.
  Whether they raise is a parameter of the model, written \<open>refresh\<close> and applied to the
  list they draw: \<open>None\<close> when both return, \<open>Some m\<close> when one raises and the \<open>except\<close>
  clause that catches it shows the text \<open>m\<close> in a critical box.
\<close>

type_synonym refresher = "point list \<Rightarrow> msg option"

subsection \<open>Unit conversion\<close>

definition conversions :: "real \<Rightarrow> int \<rightharpoonup> real" where
  "conversions flow_value =
     [0 \<mapsto> flow_value / 3600,
      1 \<mapsto> flow_value / 3600000,
      2 \<mapsto> flow_value / 60000,
      3 \<mapsto> flow_value / 1000,
      4 \<mapsto> flow_value,
      5 \<mapsto> flow_value * 0.00006309,
      6 \<mapsto> flow_value * 0.00047194]"

text \<open>\<open>conversions.get(unit_index, 0)\<close>: a key that is not in the dict gives 0.\<close>

definition convert_flow_to_m3_per_s :: "real \<Rightarrow> int \<Rightarrow> real" where
  "convert_flow_to_m3_per_s flow_value unit_index =
     (case conversions flow_value unit_index of Some q \<Rightarrow> q | None \<Rightarrow> 0)"

subsection \<open>Velocity and its analysis\<close>

definition analyze_velocity :: "real \<Rightarrow> regime" where
  "analyze_velocity velocity =
     (if velocity < 0.5 then BAJA
      else if velocity \<le> 1.5 then OPTIMA
      else if velocity \<le> 3.0 then ACEPTABLE
      else if velocity \<le> 5.0 then ALTA
      else MUY_ALTA)"

text \<open>
  \<open>calculate_velocity\<close>: the box it shows (if any) and the window afterwards. The
  square raises \<open>OverflowError\<close> when it does not fit, and the division
  \<open>caudal_m3_s / area_m2\<close> raises \<open>ZeroDivisionError\<close> on a zero area; the last \<open>except\<close>
  clause turns both into a critical box. The unit text is cut out of the selected
  combo box item between its parentheses, which each of the seven items has.
\<close>

definition calculate_velocity :: "parser \<Rightarrow> window \<Rightarrow> dialog option \<times> window" where
  "calculate_velocity pyfloat self =
     (let caudal_str = strip (caudal_input self);
          diametro_str = strip (diametro_input self);
          espesor_str = strip (espesor_input self)
      in if caudal_str = [] \<or> diametro_str = [] \<or> espesor_str = []
         then (Some (Warning Por_favor_complete_todos_los_campos), self)
         else
          (case pyfloat caudal_str of
             None \<Rightarrow> (Some (Critical Valores_numericos_invalidos), self)
           | Some caudal \<Rightarrow>
          (case pyfloat diametro_str of
             None \<Rightarrow> (Some (Critical Valores_numericos_invalidos), self)
           | Some diametro_exterior \<Rightarrow>
          (case pyfloat espesor_str of
             None \<Rightarrow> (Some (Critical Valores_numericos_invalidos), self)
           | Some espesor \<Rightarrow>
             if caudal \<le> 0 \<or> diametro_exterior \<le> 0 \<or> espesor < 0
             then (Some (Warning Valores_invalidos), self)
             else if espesor \<ge> diametro_exterior / 2
             then (Some (Warning El_espesor_es_demasiado_grande), self)
             else
              (let unit_index = caudal_units self;
                   q = convert_flow_to_m3_per_s caudal unit_index;
                   di_mm = diametro_exterior - 2 * espesor;
                   di_m = di_mm / 1000
               in case pow2 (di_m / 2) of
                    Inl m \<Rightarrow> (Some (Critical m), self)
                  | Inr sq \<Rightarrow>
                     (let area = pi * sq
                      in if area = 0
                         then (Some (Critical Error_float_division_by_zero), self)
                         else
                          (let v = q / area
                           in (None,
                               self\<lparr>results_text := Some
                                 \<lparr>res_caudal = caudal,
                                  res_diametro_exterior = diametro_exterior,
                                  res_espesor = espesor,
                                  diametro_interior_mm = di_mm,
                                  diametro_interior_m = di_m,
                                  area_m2 = area,
                                  caudal_m3_s = q,
                                  velocidad = v,
                                  analisis = analyze_velocity v\<rparr>\<rparr>))))))))"

subsection \<open>Calibration session\<close>

text \<open>
  \<open>add_calibration_point\<close>. The table and plot refreshes run inside the \<open>try\<close> after
  the append: when one raises, the critical box is shown with the point already in the
  list, the fields are not cleared and no information box follows. Otherwise the two
  measurement fields are cleared and the information box is shown when the list holds
  ten points or more.
\<close>

definition add_calibration_point ::
    "parser \<Rightarrow> refresher \<Rightarrow> window \<Rightarrow> dialog option \<times> window" where
  "add_calibration_point pyfloat refresh self =
     (let diametro_str = strip (calib_diametro self);
          espesor_str = strip (calib_espesor self);
          caudal_str = strip (calib_caudal self);
          velocidad_equipo_str = strip (calib_velocidad_equipo self)
      in if diametro_str = [] \<or> espesor_str = [] \<or> caudal_str = [] \<or> velocidad_equipo_str = []
         then (Some (Warning Complete_todos_los_campos), self)
         else
          (case pyfloat diametro_str of
             None \<Rightarrow> (Some (Critical Valores_numericos_invalidos), self)
           | Some diametro_exterior \<Rightarrow>
          (case pyfloat espesor_str of
             None \<Rightarrow> (Some (Critical Valores_numericos_invalidos), self)
           | Some espesor \<Rightarrow>
          (case pyfloat caudal_str of
             None \<Rightarrow> (Some (Critical Valores_numericos_invalidos), self)
           | Some caudal \<Rightarrow>
          (case pyfloat velocidad_equipo_str of
             None \<Rightarrow> (Some (Critical Valores_numericos_invalidos), self)
           | Some v_equipo \<Rightarrow>
             if diametro_exterior \<le> 0 \<or> espesor < 0 \<or> caudal \<le> 0
             then (Some (Warning Valores_invalidos), self)
             else if espesor \<ge> diametro_exterior / 2
             then (Some (Warning Espesor_demasiado_grande), self)
             else
              (let unit_index = calib_caudal_units self;
                   q = convert_flow_to_m3_per_s caudal unit_index;
                   di_m = (diametro_exterior - 2 * espesor) / 1000
               in case pow2 (di_m / 2) of
                    Inl m \<Rightarrow> (Some (Critical m), self)
                  | Inr sq \<Rightarrow>
                     (let area = pi * sq
                      in if area = 0
                         then (Some (Critical Error_float_division_by_zero), self)
                         else
                          (let v_patron = q / area;
                               err = v_equipo - v_patron;
                               n = int (length (calibration_data self)) + 1;
                               data = calibration_data self @
                                 [\<lparr>punto = n,
                                   velocidad_patron = v_patron,
                                   velocidad_equipo = v_equipo,
                                   error = err\<rparr>];
                               appended = self\<lparr>calibration_data := data\<rparr>
                           in case refresh data of
                                Some m \<Rightarrow> (Some (Critical m), appended)
                              | None \<Rightarrow>
                                 (if length data \<ge> 10
                                  then Some (Information
                                         Se_han_ingresado_10_puntos_Calibracion_completa)
                                  else None,
                                  appended\<lparr>calib_caudal := [],
                                           calib_velocidad_equipo := []\<rparr>)))))))))"

text \<open>
  \<open>clear_calibration\<close>: the argument is the answer to the confirmation question
  (\<open>True\<close> for \<open>QMessageBox.Yes\<close>).
\<close>

definition clear_calibration :: "bool \<Rightarrow> window \<Rightarrow> window" where
  "clear_calibration reply self =
     (if reply then self\<lparr>calibration_data := []\<rparr> else self)"

subsection \<open>Statistics\<close>

text \<open>\<open>np.mean\<close> and \<open>np.std(..., ddof=1)\<close> of a list of floats.\<close>

definition np_mean :: "real list \<Rightarrow> real" where
  "np_mean xs = sum_list xs / real (length xs)"

definition np_std_ddof1 :: "real list \<Rightarrow> real" where
  "np_std_ddof1 xs =
     sqrt (sum_list (map (\<lambda>x. (x - np_mean xs) ^ 2) xs) / (real (length xs) - 1))"

text \<open>
  \<open>update_calibration_plot\<close>: with no data it clears the plot and returns before any
  statistics are built (\<open>None\<close>); otherwise it builds the dict \<open>statistics\<close>.
\<close>

definition update_calibration_plot :: "window \<Rightarrow> statistics option" where
  "update_calibration_plot self =
     (if calibration_data self = [] then None
      else
       (let errors = map error (calibration_data self)
        in Some \<lparr>mean_error = np_mean errors,
                 std_error = (if length errors > 1 then np_std_ddof1 errors else 0),
                 max_error = Max (set errors),
                 min_error = Min (set errors)\<rparr>))"

text \<open>
  The expanded uncertainty is not stored: the statistics text and the plot both print
  \<open>2*statistics['std_error']\<close>.
\<close>

definition incertidumbre_expandida :: "statistics \<Rightarrow> real" where
  "incertidumbre_expandida st = 2 * std_error st"

text \<open>
  \<open>export_results\<close>, as far as the statistics block of the report: a warning with no
  data; a critical box when \<open>float\<close> rejects a pipe field while the header is written;
  otherwise mean, standard deviation, maximum, minimum and \<open>2*std_error\<close>. Writing the
  file is taken to succeed.
\<close>

record report_statistics =
  rep_mean_error :: real
  rep_std_error :: real
  rep_max_error :: real
  rep_min_error :: real
  rep_incertidumbre_expandida :: real

definition export_results :: "parser \<Rightarrow> window \<Rightarrow> dialog + report_statistics" where
  "export_results pyfloat self =
     (if calibration_data self = []
      then Inl (Warning No_hay_datos_de_calibracion_para_exportar)
      else
       (case pyfloat (calib_diametro self) of
          None \<Rightarrow> Inl (Critical Error_al_exportar)
        | Some diametro \<Rightarrow>
       (case pyfloat (calib_espesor self) of
          None \<Rightarrow> Inl (Critical Error_al_exportar)
        | Some espesor \<Rightarrow>
          (let errors = map error (calibration_data self);
               mean = np_mean errors;
               std = (if length errors > 1 then np_std_ddof1 errors else 0)
           in Inr \<lparr>rep_mean_error = mean,
                   rep_std_error = std,
                   rep_max_error = Max (set errors),
                   rep_min_error = Min (set errors),
                   rep_incertidumbre_expandida = 2 * std\<rparr>))))"

subsection \<open>The calibration tab in use\<close>

text \<open>
  A call is rejected when it ends in a warning or a critical box; the information box
  is not a rejection.
\<close>

fun rejected :: "dialog option \<Rightarrow> bool" where
  "rejected (Some (Warning m)) = True"
| "rejected (Some (Critical m)) = True"
| "rejected (Some (Information m)) = False"
| "rejected None = False"

text \<open>
  What the user can do on the calibration tab: type into one of the four line edits,
  pick a unit, press "Agregar Punto" (connected to \<open>add_calibration_point\<close>) or press
  "Limpiar Calibracion" (connected to \<open>clear_calibration\<close>) and answer its question.
\<close>

datatype event =
    Edit_calib_diametro string
  | Edit_calib_espesor string
  | Edit_calib_caudal string
  | Edit_calib_velocidad_equipo string
  | Select_calib_caudal_units int
  | Click_add_point_btn
  | Click_clear_calib_btn bool

fun handle :: "parser \<Rightarrow> refresher \<Rightarrow> window \<Rightarrow> event \<Rightarrow> window" where
  "handle pyfloat refresh self (Edit_calib_diametro s) = self\<lparr>calib_diametro := s\<rparr>"
| "handle pyfloat refresh self (Edit_calib_espesor s) = self\<lparr>calib_espesor := s\<rparr>"
| "handle pyfloat refresh self (Edit_calib_caudal s) = self\<lparr>calib_caudal := s\<rparr>"
| "handle pyfloat refresh self (Edit_calib_velocidad_equipo s) =
     self\<lparr>calib_velocidad_equipo := s\<rparr>"
| "handle pyfloat refresh self (Select_calib_caudal_units i) = self\<lparr>calib_caudal_units := i\<rparr>"
| "handle pyfloat refresh self Click_add_point_btn =
     snd (add_calibration_point pyfloat refresh self)"
| "handle pyfloat refresh self (Click_clear_calib_btn reply) = clear_calibration reply self"

fun run :: "parser \<Rightarrow> refresher \<Rightarrow> window \<Rightarrow> event list \<Rightarrow> window" where
  "run pyfloat refresh self [] = self"
| "run pyfloat refresh self (e # es) = run pyfloat refresh (handle pyfloat refresh self e) es"

text \<open>The window as \<open>__init__\<close> leaves it: empty fields, first unit selected, no points.\<close>

definition init_window :: window where
  "init_window =
     \<lparr>caudal_input = [], diametro_input = [], espesor_input = [], caudal_units = 0,
      results_text = None,
      calib_diametro = [], calib_espesor = [], calib_caudal = [],
      calib_velocidad_equipo = [], calib_caudal_units = 0,
      calibration_data = []\<rparr>"

text \<open>
  The points of a session carry the numbers 1, 2, ... in the order of the list.
\<close>

definition numbered :: "point list \<Rightarrow> bool" where
  "numbered ps = (map punto ps = map (\<lambda>i. int i + 1) [0..<length ps])"

text \<open>
  \<open>float\<close> on the decimal texts of the examples below; every other text is left out
  (rejected).
\<close>

definition float_examples :: parser where
  "float_examples =
     map_of [(''114.3'', 114.3), (''6.02'', 6.02), (''10'', 10), (''0.35'', 0.35),
             (''-1'', -1), (''60'', 60), (''0'', 0),
             (''1e200'', 10 ^ 200), (''1e-160'', 1 / 10 ^ 160)]"

text \<open>A refresh that never raises, and one that always does.\<close>

definition refresh_ok :: refresher where
  "refresh_ok data = None"

definition refresh_raises :: refresher where
  "refresh_raises data = Some Error_str_e"

text \<open>
  Two pieces of a session used in the examples: the pipe of the end-to-end example
  (outer diameter 114.3 mm, wall 6.02 mm) is typed in, and one measurement (10 in the
  selected unit, instrument reading 0.35 m/s) is typed in and added.
\<close>

definition example_pipe :: "event list" where
  "example_pipe = [Edit_calib_diametro ''114.3'', Edit_calib_espesor ''6.02'']"

definition example_measurement :: "event list" where
  "example_measurement = [Edit_calib_caudal ''10'', Edit_calib_velocidad_equipo ''0.35'']"

definition example_point :: "event list" where
  "example_point = example_measurement @ [Click_add_point_btn]"

text \<open>
  The calculator tab filled in with the end-to-end example (10 m3/h, the first unit,
  through the pipe above), the calibration tab with the same pipe and one measurement;
  and the same window with a wall of 60 mm, more than half the outer diameter.
\<close>

definition example_calculation :: window where
  "example_calculation =
     run float_examples refresh_ok
       (init_window\<lparr>caudal_input := ''10'', diametro_input := ''114.3'',
                    espesor_input := ''6.02''\<rparr>)
       (example_pipe @ example_measurement)"




section \<open>Properties\<close>

subsection \<open>Unit conversion\<close>

text \<open>
  C1 (as the code has it). A unit index outside 0..6 is not a key of the dict, and the
  conversion then returns the default 0 for every flow value: it does not fail.
\<close>

theorem convert_flow_unknown_unit_default:
  "unit_index < 0 \<or> 6 < unit_index \<Longrightarrow>
     conversions flow_value unit_index = None \<and>
     convert_flow_to_m3_per_s flow_value unit_index = 0"
  by (auto simp: convert_flow_to_m3_per_s_def conversions_def)

theorem convert_flow_unknown_unit_default_witness:
  "((7::int) < 0 \<or> 6 < (7::int)) \<and>
   conversions 5 7 = None \<and> convert_flow_to_m3_per_s 5 7 = 0"
  using convert_flow_unknown_unit_default [of 7 5] by simp

text \<open>
  C1 as stated fails: the unit index 7 is not one of the seven keys, and with the flow
  value 5 the call returns the number 0.
\<close>

theorem convert_flow_unknown_unit_returns_zero:
  "conversions 5 7 = None \<and> convert_flow_to_m3_per_s 5 7 = 0"
  by (simp add: convert_flow_to_m3_per_s_def conversions_def)

text \<open>
  C5. Each of the seven units is converted by its fixed factor; 3600 m3/h and 1 m3/s
  both give 1 m3/s.
\<close>

theorem convert_flow_factors:
  "convert_flow_to_m3_per_s v 0 = v / 3600 \<and>
   convert_flow_to_m3_per_s v 1 = v / 3600000 \<and>
   convert_flow_to_m3_per_s v 2 = v / 60000 \<and>
   convert_flow_to_m3_per_s v 3 = v / 1000 \<and>
   convert_flow_to_m3_per_s v 4 = v \<and>
   convert_flow_to_m3_per_s v 5 = v * 0.00006309 \<and>
   convert_flow_to_m3_per_s v 6 = v * 0.00047194 \<and>
   convert_flow_to_m3_per_s 3600 0 = 1 \<and>
   convert_flow_to_m3_per_s 1 4 = 1"
  by (simp add: convert_flow_to_m3_per_s_def conversions_def)

subsection \<open>Regime of a velocity\<close>

text \<open>
  C7. The regime is BAJA exactly below 0.5, OPTIMA exactly on [0.5, 1.5], ACEPTABLE
  exactly on (1.5, 3.0], ALTA exactly on (3.0, 5.0] and MUY ALTA exactly above 5.0; the
  four boundary values fall in OPTIMA, OPTIMA, ACEPTABLE and ALTA.
\<close>

theorem analyze_velocity_boundaries:
  "(analyze_velocity v = BAJA) = (v < 0.5) \<and>
   (analyze_velocity v = OPTIMA) = (0.5 \<le> v \<and> v \<le> 1.5) \<and>
   (analyze_velocity v = ACEPTABLE) = (1.5 < v \<and> v \<le> 3.0) \<and>
   (analyze_velocity v = ALTA) = (3.0 < v \<and> v \<le> 5.0) \<and>
   (analyze_velocity v = MUY_ALTA) = (5.0 < v) \<and>
   analyze_velocity 0.5 = OPTIMA \<and> analyze_velocity 1.5 = OPTIMA \<and>
   analyze_velocity 3.0 = ACEPTABLE \<and> analyze_velocity 5.0 = ALTA"
  by (auto simp: analyze_velocity_def)

subsection \<open>Adding a calibration point\<close>

text \<open>The square inside and outside the range of a double.\<close>

lemma dbl_underflow_pos: "0 < dbl_underflow"
  by (simp add: dbl_underflow_def)

lemma pow2_in_range:
  "x ^ 2 < dbl_overflow \<Longrightarrow> dbl_underflow < x ^ 2 \<Longrightarrow> pow2 x = Inr (x ^ 2)"
  by (simp add: pow2_def)



lemma pow2_cases:
  "pow2 x = Inl Error_Numerical_result_out_of_range \<and> dbl_overflow \<le> x ^ 2 \<or>
   pow2 x = Inr 0 \<and> x ^ 2 < dbl_overflow \<and> x ^ 2 \<le> dbl_underflow \<or>
   pow2 x = Inr (x ^ 2) \<and> x ^ 2 < dbl_overflow \<and> dbl_underflow < x ^ 2"
  by (auto simp: pow2_def)

lemma area_nonzero:
  fixes x :: real
  assumes "dbl_underflow < x ^ 2"
  shows "pi * x ^ 2 \<noteq> 0"
proof -
  have "0 < x ^ 2" using assms dbl_underflow_pos by linarith
  then show ?thesis by simp
qed

text \<open>
  What a call returns on numeric fields that pass the checks, and that every call either
  is rejected with the window unchanged or had such fields.
\<close>

lemma add_calibration_point_accepts:
  fixes self :: window and d e c ve :: real
  defines "x \<equiv> (d - 2 * e) / 1000 / 2"
  defines "pt \<equiv> \<lparr>punto = int (length (calibration_data self)) + 1,
            velocidad_patron =
              convert_flow_to_m3_per_s c (calib_caudal_units self) / (pi * x ^ 2),
            velocidad_equipo = ve,
            error = ve - convert_flow_to_m3_per_s c (calib_caudal_units self) / (pi * x ^ 2)\<rparr>"
  assumes "strip (calib_diametro self) \<noteq> []" and "strip (calib_espesor self) \<noteq> []"
    and "strip (calib_caudal self) \<noteq> []" and "strip (calib_velocidad_equipo self) \<noteq> []"
    and "pyfloat (strip (calib_diametro self)) = Some d"
    and "pyfloat (strip (calib_espesor self)) = Some e"
    and "pyfloat (strip (calib_caudal self)) = Some c"
    and "pyfloat (strip (calib_velocidad_equipo self)) = Some ve"
    and "0 < d" and "0 \<le> e" and "0 < c" and "e < d / 2"
    and "x ^ 2 < dbl_overflow" and "dbl_underflow < x ^ 2"
  shows "add_calibration_point pyfloat refresh self =
     (case refresh (calibration_data self @ [pt]) of
        Some m \<Rightarrow> (Some (Critical m), self\<lparr>calibration_data := calibration_data self @ [pt]\<rparr>)
      | None \<Rightarrow>
         (if 10 \<le> length (calibration_data self) + 1
          then Some (Information Se_han_ingresado_10_puntos_Calibracion_completa) else None,
          self\<lparr>calibration_data := calibration_data self @ [pt],
               calib_caudal := [], calib_velocidad_equipo := []\<rparr>))"
proof -
  have sq: "pow2 x = Inr (x ^ 2)"
    by (rule pow2_in_range [OF assms(15,16)])
  have nz: "pi * x ^ 2 \<noteq> 0"
    by (rule area_nonzero [OF assms(16)])
  have v: "\<not> (d \<le> 0 \<or> e < 0 \<or> c \<le> 0)" "\<not> d / 2 \<le> e"
    using assms(11-14) by auto
  show ?thesis
    unfolding add_calibration_point_def Let_def
    using assms(3-10) v sq [unfolded x_def] nz [unfolded x_def]
    by (simp add: pt_def x_def split: option.splits)
qed

lemma add_calibration_point_cases:
  "(rejected (fst (add_calibration_point pyfloat refresh self)) \<and>
      snd (add_calibration_point pyfloat refresh self) = self) \<or>
   (\<exists>d e c ve.
      strip (calib_diametro self) \<noteq> [] \<and> strip (calib_espesor self) \<noteq> [] \<and>
      strip (calib_caudal self) \<noteq> [] \<and> strip (calib_velocidad_equipo self) \<noteq> [] \<and>
      pyfloat (strip (calib_diametro self)) = Some d \<and>
      pyfloat (strip (calib_espesor self)) = Some e \<and>
      pyfloat (strip (calib_caudal self)) = Some c \<and>
      pyfloat (strip (calib_velocidad_equipo self)) = Some ve \<and>
      0 < d \<and> 0 \<le> e \<and> 0 < c \<and> e < d / 2 \<and>
      ((d - 2 * e) / 1000 / 2) ^ 2 < dbl_overflow \<and>
      dbl_underflow < ((d - 2 * e) / 1000 / 2) ^ 2)"
  unfolding add_calibration_point_def Let_def
  by (auto simp: pow2_def split: option.splits sum.splits if_splits)

text \<open>The example inputs.\<close>

lemma strip_examples:
  "strip ''114.3'' = ''114.3''" "strip ''6.02'' = ''6.02''" "strip ''10'' = ''10''"
  "strip ''0.35'' = ''0.35''" "strip ''-1'' = ''-1''" "strip ''60'' = ''60''"
  "strip ''0'' = ''0''" "strip ''1e200'' = ''1e200''" "strip ''1e-160'' = ''1e-160''"
  "strip [] = []"
  by (simp_all add: strip_def isspace_def)

lemma float_examples_values:
  "float_examples ''114.3'' = Some 114.3" "float_examples ''6.02'' = Some 6.02"
  "float_examples ''10'' = Some 10" "float_examples ''0.35'' = Some 0.35"
  "float_examples ''-1'' = Some (-1)" "float_examples ''60'' = Some 60"
  "float_examples ''0'' = Some 0" "float_examples ''1e200'' = Some (10 ^ 200)"
  "float_examples ''1e-160'' = Some (1 / 10 ^ 160)"
  by (simp_all add: float_examples_def)

lemma example_pipe_in_range:
  "((114.3 - 2 * 6.02) / 1000 / 2) ^ 2 < dbl_overflow"
  "dbl_underflow < ((114.3 - 2 * 6.02) / 1000 / 2) ^ 2"
  "(5113 / 100000) ^ 2 < dbl_overflow"
  "dbl_underflow < (5113 / 100000) ^ 2"
  by (simp_all add: dbl_overflow_def dbl_underflow_def power2_eq_square)

lemma run_append:
  "run pyfloat refresh self (es @ fs) = run pyfloat refresh (run pyfloat refresh self es) fs"
  by (induction es arbitrary: self) simp_all

lemma example_add:
  assumes "calib_diametro self = ''114.3''" and "calib_espesor self = ''6.02''"
    and "calib_caudal self = ''10''" and "calib_velocidad_equipo self = ''0.35''"
  shows "add_calibration_point float_examples refresh_ok self =
     (if 10 \<le> length (calibration_data self) + 1
      then Some (Information Se_han_ingresado_10_puntos_Calibracion_completa) else None,
      self\<lparr>calibration_data := calibration_data self @
          [\<lparr>punto = int (length (calibration_data self)) + 1,
            velocidad_patron =
              convert_flow_to_m3_per_s 10 (calib_caudal_units self) /
                (pi * ((114.3 - 2 * 6.02) / 1000 / 2) ^ 2),
            velocidad_equipo = 0.35,
            error = 0.35 - convert_flow_to_m3_per_s 10 (calib_caudal_units self) /
                (pi * ((114.3 - 2 * 6.02) / 1000 / 2) ^ 2)\<rparr>],
        calib_caudal := [], calib_velocidad_equipo := []\<rparr>)"
proof -
  have "add_calibration_point float_examples refresh_ok self =
     (case refresh_ok (calibration_data self @
          [\<lparr>punto = int (length (calibration_data self)) + 1,
            velocidad_patron =
              convert_flow_to_m3_per_s 10 (calib_caudal_units self) /
                (pi * ((114.3 - 2 * 6.02) / 1000 / 2) ^ 2),
            velocidad_equipo = 0.35,
            error = 0.35 - convert_flow_to_m3_per_s 10 (calib_caudal_units self) /
                (pi * ((114.3 - 2 * 6.02) / 1000 / 2) ^ 2)\<rparr>]) of
        Some m \<Rightarrow> (Some (Critical m), self\<lparr>calibration_data := calibration_data self @
          [\<lparr>punto = int (length (calibration_data self)) + 1,
            velocidad_patron =
              convert_flow_to_m3_per_s 10 (calib_caudal_units self) /
                (pi * ((114.3 - 2 * 6.02) / 1000 / 2) ^ 2),
            velocidad_equipo = 0.35,
            error = 0.35 - convert_flow_to_m3_per_s 10 (calib_caudal_units self) /
                (pi * ((114.3 - 2 * 6.02) / 1000 / 2) ^ 2)\<rparr>]\<rparr>)
      | None \<Rightarrow>
         (if 10 \<le> length (calibration_data self) + 1
          then Some (Information Se_han_ingresado_10_puntos_Calibracion_completa) else None,
          self\<lparr>calibration_data := calibration_data self @
          [\<lparr>punto = int (length (calibration_data self)) + 1,
            velocidad_patron =
              convert_flow_to_m3_per_s 10 (calib_caudal_units self) /
                (pi * ((114.3 - 2 * 6.02) / 1000 / 2) ^ 2),
            velocidad_equipo = 0.35,
            error = 0.35 - convert_flow_to_m3_per_s 10 (calib_caudal_units self) /
                (pi * ((114.3 - 2 * 6.02) / 1000 / 2) ^ 2)\<rparr>],
               calib_caudal := [], calib_velocidad_equipo := []\<rparr>))"
    by (rule add_calibration_point_accepts)
       (simp_all add: assms strip_examples float_examples_values example_pipe_in_range)
  then show ?thesis
    by (simp add: refresh_ok_def)
qed

lemma example_point_step:
  assumes "calib_diametro self = ''114.3''" and "calib_espesor self = ''6.02''"
  shows "run float_examples refresh_ok self example_point =
     self\<lparr>calibration_data := calibration_data self @
          [\<lparr>punto = int (length (calibration_data self)) + 1,
            velocidad_patron =
              convert_flow_to_m3_per_s 10 (calib_caudal_units self) /
                (pi * ((114.3 - 2 * 6.02) / 1000 / 2) ^ 2),
            velocidad_equipo = 0.35,
            error = 0.35 - convert_flow_to_m3_per_s 10 (calib_caudal_units self) /
                (pi * ((114.3 - 2 * 6.02) / 1000 / 2) ^ 2)\<rparr>],
        calib_caudal := [], calib_velocidad_equipo := []\<rparr>"
  by (simp add: example_point_def example_measurement_def example_add assms)

lemma example_points_count:
  assumes "calib_diametro self = ''114.3''" and "calib_espesor self = ''6.02''"
  shows "length (calibration_data
            (run float_examples refresh_ok self (concat (replicate n example_point))))
           = length (calibration_data self) + n \<and>
         calib_diametro (run float_examples refresh_ok self
            (concat (replicate n example_point))) = ''114.3'' \<and>
         calib_espesor (run float_examples refresh_ok self
            (concat (replicate n example_point))) = ''6.02''"
  using assms
proof (induction n arbitrary: self)
  case 0
  then show ?case by simp
next
  case (Suc n)
  let ?w = "run float_examples refresh_ok self example_point"
  have w: "calib_diametro ?w = ''114.3''" "calib_espesor ?w = ''6.02''"
    "length (calibration_data ?w) = length (calibration_data self) + 1"
    by (simp_all add: example_point_step [OF Suc.prems] Suc.prems)
  show ?case
    using Suc.IH [OF w(1,2)] w(3) by (simp add: run_append)
qed

lemma init_example_pipe:
  "calib_diametro (run float_examples refresh_ok init_window example_pipe) = ''114.3''"
  "calib_espesor (run float_examples refresh_ok init_window example_pipe) = ''6.02''"
  "calibration_data (run float_examples refresh_ok init_window example_pipe) = []"
  "calib_caudal_units (run float_examples refresh_ok init_window example_pipe) = 0"
  by (simp_all add: example_pipe_def init_window_def)

lemma example_window:
  "calib_diametro (run float_examples refresh_ok init_window
     (example_pipe @ example_measurement)) = ''114.3''"
  "calib_espesor (run float_examples refresh_ok init_window
     (example_pipe @ example_measurement)) = ''6.02''"
  "calib_caudal (run float_examples refresh_ok init_window
     (example_pipe @ example_measurement)) = ''10''"
  "calib_velocidad_equipo (run float_examples refresh_ok init_window
     (example_pipe @ example_measurement)) = ''0.35''"
  "calib_caudal_units (run float_examples refresh_ok init_window
     (example_pipe @ example_measurement)) = 0"
  "calibration_data (run float_examples refresh_ok init_window
     (example_pipe @ example_measurement)) = []"
  by (simp_all add: example_pipe_def example_measurement_def init_window_def)

lemma example_window_add:
  "add_calibration_point float_examples refresh_ok
     (run float_examples refresh_ok init_window (example_pipe @ example_measurement)) =
   (None,
    run float_examples refresh_ok init_window (example_pipe @ example_measurement)
      \<lparr>calibration_data :=
         [\<lparr>punto = 1,
           velocidad_patron = (10 / 3600) / (pi * ((114.3 - 2 * 6.02) / 1000 / 2) ^ 2),
           velocidad_equipo = 0.35,
           error = 0.35 - (10 / 3600) / (pi * ((114.3 - 2 * 6.02) / 1000 / 2) ^ 2)\<rparr>],
       calib_caudal := [], calib_velocidad_equipo := []\<rparr>)"
  by (simp add: example_add example_window convert_flow_to_m3_per_s_def conversions_def)

lemma example_points_window:
  "calib_diametro (run float_examples refresh_ok init_window
      (example_pipe @ concat (replicate n example_point) @ example_measurement)) = ''114.3''"
  "calib_espesor (run float_examples refresh_ok init_window
      (example_pipe @ concat (replicate n example_point) @ example_measurement)) = ''6.02''"
  "calib_caudal (run float_examples refresh_ok init_window
      (example_pipe @ concat (replicate n example_point) @ example_measurement)) = ''10''"
  "calib_velocidad_equipo (run float_examples refresh_ok init_window
      (example_pipe @ concat (replicate n example_point) @ example_measurement)) = ''0.35''"
  "length (calibration_data (run float_examples refresh_ok init_window
      (example_pipe @ concat (replicate n example_point) @ example_measurement))) = n"
  using example_points_count [OF init_example_pipe(1,2), of n]
  by (simp_all add: run_append init_example_pipe example_measurement_def)

text \<open>
  C4. A call that is not rejected read four numbers from the fields and appended
  exactly one point at the end of the list: its number is the former count plus one, its
  reference velocity is the converted flow divided by the flow area of the pipe, and
  its error is the instrument reading minus that reference velocity.
\<close>

theorem add_point_appends_one:
  assumes "\<not> rejected (fst (add_calibration_point pyfloat refresh self))"
  shows "\<exists>d e c ve.
      pyfloat (strip (calib_diametro self)) = Some d \<and>
      pyfloat (strip (calib_espesor self)) = Some e \<and>
      pyfloat (strip (calib_caudal self)) = Some c \<and>
      pyfloat (strip (calib_velocidad_equipo self)) = Some ve \<and>
      (let reference = convert_flow_to_m3_per_s c (calib_caudal_units self) /
                         (pi * ((d - 2 * e) / 1000 / 2) ^ 2)
       in calibration_data (snd (add_calibration_point pyfloat refresh self)) =
            calibration_data self @
              [\<lparr>punto = int (length (calibration_data self)) + 1,
                velocidad_patron = reference,
                velocidad_equipo = ve,
                error = ve - reference\<rparr>])"
proof -
  from add_calibration_point_cases [of pyfloat refresh self] assms
  obtain d e c ve where ok:
      "strip (calib_diametro self) \<noteq> []" "strip (calib_espesor self) \<noteq> []"
      "strip (calib_caudal self) \<noteq> []" "strip (calib_velocidad_equipo self) \<noteq> []"
      "pyfloat (strip (calib_diametro self)) = Some d"
      "pyfloat (strip (calib_espesor self)) = Some e"
      "pyfloat (strip (calib_caudal self)) = Some c"
      "pyfloat (strip (calib_velocidad_equipo self)) = Some ve"
      "0 < d" "0 \<le> e" "0 < c" "e < d / 2"
      "((d - 2 * e) / 1000 / 2) ^ 2 < dbl_overflow"
      "dbl_underflow < ((d - 2 * e) / 1000 / 2) ^ 2"
    by blast
  show ?thesis
    using ok(5-8)
    by (simp add: add_calibration_point_accepts [OF ok] Let_def split: option.splits)
qed

theorem add_point_appends_one_witness:
  "\<not> rejected (fst (add_calibration_point float_examples refresh_ok
        (run float_examples refresh_ok init_window (example_pipe @ example_measurement)))) \<and>
   calibration_data (snd (add_calibration_point float_examples refresh_ok
        (run float_examples refresh_ok init_window (example_pipe @ example_measurement)))) =
     [\<lparr>punto = 1,
       velocidad_patron = (10 / 3600) / (pi * ((114.3 - 2 * 6.02) / 1000 / 2) ^ 2),
       velocidad_equipo = 0.35,
       error = 0.35 - (10 / 3600) / (pi * ((114.3 - 2 * 6.02) / 1000 / 2) ^ 2)\<rparr>]"
proof -
  let ?w = "run float_examples refresh_ok init_window (example_pipe @ example_measurement)"
  have h: "\<not> rejected (fst (add_calibration_point float_examples refresh_ok ?w))"
    by (simp add: example_window_add)
  from add_point_appends_one [OF h] obtain d e c ve where
    p: "float_examples (strip (calib_diametro ?w)) = Some d"
       "float_examples (strip (calib_espesor ?w)) = Some e"
       "float_examples (strip (calib_caudal ?w)) = Some c"
       "float_examples (strip (calib_velocidad_equipo ?w)) = Some ve"
    and a: "calibration_data (snd (add_calibration_point float_examples refresh_ok ?w)) =
            calibration_data ?w @
              [\<lparr>punto = int (length (calibration_data ?w)) + 1,
                velocidad_patron = convert_flow_to_m3_per_s c (calib_caudal_units ?w) /
                         (pi * ((d - 2 * e) / 1000 / 2) ^ 2),
                velocidad_equipo = ve,
                error = ve - convert_flow_to_m3_per_s c (calib_caudal_units ?w) /
                         (pi * ((d - 2 * e) / 1000 / 2) ^ 2)\<rparr>]"
    unfolding Let_def by blast
  from p have v: "d = 114.3" "e = 6.02" "c = 10" "ve = 0.35"
    by (simp_all add: example_window strip_examples float_examples_values)
  from a h show ?thesis
    unfolding v by (simp add: example_window convert_flow_to_m3_per_s_def conversions_def)
qed

text \<open>
  C10. When a field is missing, a field is not numeric, the flow is not positive, the
  outer diameter is not positive, the wall is negative or the wall is at least half the
  outer diameter, the call is rejected and leaves the window as it was: the list of
  points and its length are unchanged.
\<close>

theorem add_point_rejection_atomic:
  assumes "strip (calib_diametro self) = [] \<or> strip (calib_espesor self) = [] \<or>
           strip (calib_caudal self) = [] \<or> strip (calib_velocidad_equipo self) = [] \<or>
           pyfloat (strip (calib_diametro self)) = None \<or>
           pyfloat (strip (calib_espesor self)) = None \<or>
           pyfloat (strip (calib_caudal self)) = None \<or>
           pyfloat (strip (calib_velocidad_equipo self)) = None \<or>
           (\<exists>c. pyfloat (strip (calib_caudal self)) = Some c \<and> c \<le> 0) \<or>
           (\<exists>d. pyfloat (strip (calib_diametro self)) = Some d \<and> d \<le> 0) \<or>
           (\<exists>e. pyfloat (strip (calib_espesor self)) = Some e \<and> e < 0) \<or>
           (\<exists>d e. pyfloat (strip (calib_diametro self)) = Some d \<and>
                  pyfloat (strip (calib_espesor self)) = Some e \<and> e \<ge> d / 2)"
  shows "rejected (fst (add_calibration_point pyfloat refresh self)) \<and>
         snd (add_calibration_point pyfloat refresh self) = self \<and>
         calibration_data (snd (add_calibration_point pyfloat refresh self)) =
           calibration_data self \<and>
         length (calibration_data (snd (add_calibration_point pyfloat refresh self))) =
           length (calibration_data self)"
proof -
  have r: "rejected (fst (add_calibration_point pyfloat refresh self)) \<and>
           snd (add_calibration_point pyfloat refresh self) = self"
    using add_calibration_point_cases [of pyfloat refresh self] assms by fastforce
  then show ?thesis by simp
qed

theorem add_point_rejection_atomic_witness:
  "float_examples (strip (calib_caudal (run float_examples refresh_ok init_window
      (example_pipe @ example_point @
       [Edit_calib_caudal ''-1'', Edit_calib_velocidad_equipo ''0.35''])))) = Some (- 1) \<and>
   rejected (fst (add_calibration_point float_examples refresh_ok
     (run float_examples refresh_ok init_window
      (example_pipe @ example_point @
       [Edit_calib_caudal ''-1'', Edit_calib_velocidad_equipo ''0.35''])))) \<and>
   length (calibration_data (snd (add_calibration_point float_examples refresh_ok
     (run float_examples refresh_ok init_window
      (example_pipe @ example_point @
       [Edit_calib_caudal ''-1'', Edit_calib_velocidad_equipo ''0.35'']))))) = 1"
proof -
  let ?w = "run float_examples refresh_ok init_window
      (example_pipe @ example_point @
       [Edit_calib_caudal ''-1'', Edit_calib_velocidad_equipo ''0.35''])"
  have w: "calib_caudal ?w = ''-1''" "length (calibration_data ?w) = 1"
    by (simp_all add: run_append example_point_step init_example_pipe)
  have c: "float_examples (strip (calib_caudal ?w)) = Some (- 1)"
    by (simp add: w strip_examples float_examples_values)
  then have "\<exists>c. float_examples (strip (calib_caudal ?w)) = Some c \<and> c \<le> 0"
    by simp
  then show ?thesis
    using add_point_rejection_atomic [of ?w float_examples refresh_ok] c w(2) by simp
qed

text \<open>
  C3 (as the code has it). The information box is shown exactly when the call ends
  without a warning or critical box and the list then holds ten points or more. There
  is no cap: numeric fields that pass the checks, with the square inside the range of a
  double, append one point whatever the count. Such a call ends without an error box
  exactly when the refresh does not raise, and it shows the information box exactly
  when the refresh does not raise and the new count is at least ten.
\<close>

theorem advisory_iff_at_least_ten:
  "((fst (add_calibration_point pyfloat refresh self) =
       Some (Information Se_han_ingresado_10_puntos_Calibracion_completa)) =
    (\<not> rejected (fst (add_calibration_point pyfloat refresh self)) \<and>
     10 \<le> length (calibration_data (snd (add_calibration_point pyfloat refresh self))))) \<and>
   (\<not> rejected (fst (add_calibration_point pyfloat refresh self)) \<longrightarrow>
    length (calibration_data (snd (add_calibration_point pyfloat refresh self))) =
      length (calibration_data self) + 1) \<and>
   (strip (calib_diametro self) \<noteq> [] \<and> strip (calib_espesor self) \<noteq> [] \<and>
    strip (calib_caudal self) \<noteq> [] \<and> strip (calib_velocidad_equipo self) \<noteq> [] \<and>
    pyfloat (strip (calib_diametro self)) = Some d \<and>
    pyfloat (strip (calib_espesor self)) = Some e \<and>
    pyfloat (strip (calib_caudal self)) = Some c \<and>
    pyfloat (strip (calib_velocidad_equipo self)) = Some ve \<and>
    0 < d \<and> 0 \<le> e \<and> 0 < c \<and> e < d / 2 \<and>
    ((d - 2 * e) / 1000 / 2) ^ 2 < dbl_overflow \<and>
    dbl_underflow < ((d - 2 * e) / 1000 / 2) ^ 2 \<longrightarrow>
      length (calibration_data (snd (add_calibration_point pyfloat refresh self))) =
        length (calibration_data self) + 1 \<and>
      rejected (fst (add_calibration_point pyfloat refresh self)) =
        (refresh (calibration_data (snd (add_calibration_point pyfloat refresh self))) \<noteq> None) \<and>
      (fst (add_calibration_point pyfloat refresh self) =
         Some (Information Se_han_ingresado_10_puntos_Calibracion_completa)) =
        (refresh (calibration_data (snd (add_calibration_point pyfloat refresh self))) = None \<and>
         10 \<le> length (calibration_data self) + 1))"
proof -
  have valid: "length (calibration_data (snd (add_calibration_point pyfloat refresh self))) =
        length (calibration_data self) + 1 \<and>
      rejected (fst (add_calibration_point pyfloat refresh self)) =
        (refresh (calibration_data (snd (add_calibration_point pyfloat refresh self))) \<noteq> None) \<and>
      (fst (add_calibration_point pyfloat refresh self) =
         Some (Information Se_han_ingresado_10_puntos_Calibracion_completa)) =
        (refresh (calibration_data (snd (add_calibration_point pyfloat refresh self))) = None \<and>
         10 \<le> length (calibration_data self) + 1) \<and>
      ((fst (add_calibration_point pyfloat refresh self) =
         Some (Information Se_han_ingresado_10_puntos_Calibracion_completa)) =
       (\<not> rejected (fst (add_calibration_point pyfloat refresh self)) \<and>
        10 \<le> length (calibration_data (snd (add_calibration_point pyfloat refresh self)))))"
    if ok: "strip (calib_diametro self) \<noteq> []" "strip (calib_espesor self) \<noteq> []"
      "strip (calib_caudal self) \<noteq> []" "strip (calib_velocidad_equipo self) \<noteq> []"
      "pyfloat (strip (calib_diametro self)) = Some d'"
      "pyfloat (strip (calib_espesor self)) = Some e'"
      "pyfloat (strip (calib_caudal self)) = Some c'"
      "pyfloat (strip (calib_velocidad_equipo self)) = Some ve'"
      "0 < d'" "0 \<le> e'" "0 < c'" "e' < d' / 2"
      "((d' - 2 * e') / 1000 / 2) ^ 2 < dbl_overflow"
      "dbl_underflow < ((d' - 2 * e') / 1000 / 2) ^ 2"
    for d' e' c' ve'
    by (simp add: add_calibration_point_accepts [OF ok] split: option.splits)
  have general: "((fst (add_calibration_point pyfloat refresh self) =
       Some (Information Se_han_ingresado_10_puntos_Calibracion_completa)) =
    (\<not> rejected (fst (add_calibration_point pyfloat refresh self)) \<and>
     10 \<le> length (calibration_data (snd (add_calibration_point pyfloat refresh self))))) \<and>
   (\<not> rejected (fst (add_calibration_point pyfloat refresh self)) \<longrightarrow>
    length (calibration_data (snd (add_calibration_point pyfloat refresh self))) =
      length (calibration_data self) + 1)"
  proof -
    from add_calibration_point_cases [of pyfloat refresh self] show ?thesis
    proof
      assume r: "rejected (fst (add_calibration_point pyfloat refresh self)) \<and>
        snd (add_calibration_point pyfloat refresh self) = self"
      then have "fst (add_calibration_point pyfloat refresh self) \<noteq>
        Some (Information Se_han_ingresado_10_puntos_Calibracion_completa)"
        by auto
      with r show ?thesis by simp
    next
      assume "\<exists>d e c ve.
        strip (calib_diametro self) \<noteq> [] \<and> strip (calib_espesor self) \<noteq> [] \<and>
        strip (calib_caudal self) \<noteq> [] \<and> strip (calib_velocidad_equipo self) \<noteq> [] \<and>
        pyfloat (strip (calib_diametro self)) = Some d \<and>
        pyfloat (strip (calib_espesor self)) = Some e \<and>
        pyfloat (strip (calib_caudal self)) = Some c \<and>
        pyfloat (strip (calib_velocidad_equipo self)) = Some ve \<and>
        0 < d \<and> 0 \<le> e \<and> 0 < c \<and> e < d / 2 \<and>
        ((d - 2 * e) / 1000 / 2) ^ 2 < dbl_overflow \<and>
        dbl_underflow < ((d - 2 * e) / 1000 / 2) ^ 2"
      then obtain d' e' c' ve' where
        "strip (calib_diametro self) \<noteq> []" "strip (calib_espesor self) \<noteq> []"
        "strip (calib_caudal self) \<noteq> []" "strip (calib_velocidad_equipo self) \<noteq> []"
        "pyfloat (strip (calib_diametro self)) = Some d'"
        "pyfloat (strip (calib_espesor self)) = Some e'"
        "pyfloat (strip (calib_caudal self)) = Some c'"
        "pyfloat (strip (calib_velocidad_equipo self)) = Some ve'"
        "0 < d'" "0 \<le> e'" "0 < c'" "e' < d' / 2"
        "((d' - 2 * e') / 1000 / 2) ^ 2 < dbl_overflow"
        "dbl_underflow < ((d' - 2 * e') / 1000 / 2) ^ 2"
        by blast
      from valid [OF this] show ?thesis by simp
    qed
  qed
  from general valid show ?thesis by blast
qed

theorem advisory_iff_at_least_ten_witness:
  "float_examples (strip (calib_diametro (run float_examples refresh_ok init_window
      (example_pipe @ concat (replicate 9 example_point) @ example_measurement)))) =
     Some 114.3 \<and>
   length (calibration_data (run float_examples refresh_ok init_window
      (example_pipe @ concat (replicate 9 example_point) @ example_measurement))) = 9 \<and>
   fst (add_calibration_point float_examples refresh_ok (run float_examples refresh_ok
      init_window (example_pipe @ concat (replicate 9 example_point) @ example_measurement))) =
     Some (Information Se_han_ingresado_10_puntos_Calibracion_completa) \<and>
   length (calibration_data (snd (add_calibration_point float_examples refresh_ok
     (run float_examples refresh_ok init_window
      (example_pipe @ concat (replicate 9 example_point) @ example_measurement))))) = 10 \<and>
   rejected (fst (add_calibration_point float_examples refresh_raises
     (run float_examples refresh_ok init_window
      (example_pipe @ concat (replicate 9 example_point) @ example_measurement)))) \<and>
   length (calibration_data (snd (add_calibration_point float_examples refresh_raises
     (run float_examples refresh_ok init_window
      (example_pipe @ concat (replicate 9 example_point) @ example_measurement))))) = 10"
proof -
  let ?w = "run float_examples refresh_ok init_window
      (example_pipe @ concat (replicate 9 example_point) @ example_measurement)"
  have a: "length (calibration_data (snd (add_calibration_point float_examples refresh_ok ?w))) =
        length (calibration_data ?w) + 1 \<and>
      rejected (fst (add_calibration_point float_examples refresh_ok ?w)) =
        (refresh_ok (calibration_data (snd (add_calibration_point float_examples refresh_ok ?w)))
           \<noteq> None) \<and>
      (fst (add_calibration_point float_examples refresh_ok ?w) =
         Some (Information Se_han_ingresado_10_puntos_Calibracion_completa)) =
        (refresh_ok (calibration_data (snd (add_calibration_point float_examples refresh_ok ?w)))
           = None \<and>
         10 \<le> length (calibration_data ?w) + 1)"
    using advisory_iff_at_least_ten [where self = ?w and pyfloat = float_examples
        and refresh = refresh_ok and d = "114.3" and e = "6.02" and c = 10 and ve = "0.35"]
    by (simp add: example_points_window strip_examples float_examples_values
          example_pipe_in_range)
  have b: "length (calibration_data (snd (add_calibration_point float_examples refresh_raises ?w)))
        = length (calibration_data ?w) + 1 \<and>
      rejected (fst (add_calibration_point float_examples refresh_raises ?w)) =
        (refresh_raises
           (calibration_data (snd (add_calibration_point float_examples refresh_raises ?w)))
           \<noteq> None)"
    using advisory_iff_at_least_ten [where self = ?w and pyfloat = float_examples
        and refresh = refresh_raises and d = "114.3" and e = "6.02" and c = 10 and ve = "0.35"]
    by (simp add: example_points_window strip_examples float_examples_values
          example_pipe_in_range)
  from a b show ?thesis
    by (simp add: example_points_window strip_examples float_examples_values
          refresh_ok_def refresh_raises_def)
qed

text \<open>
  C3 as stated fails: in a session that already holds ten points the next call brings
  the count to eleven, not ten, and shows the information box again.
\<close>

theorem advisory_at_eleven_points:
  "length (calibration_data (run float_examples refresh_ok init_window
      (example_pipe @ concat (replicate 10 example_point) @ example_measurement))) = 10 \<and>
   fst (add_calibration_point float_examples refresh_ok (run float_examples refresh_ok
      init_window (example_pipe @ concat (replicate 10 example_point) @ example_measurement))) =
     Some (Information Se_han_ingresado_10_puntos_Calibracion_completa) \<and>
   length (calibration_data (snd (add_calibration_point float_examples refresh_ok
     (run float_examples refresh_ok init_window
      (example_pipe @ concat (replicate 10 example_point) @ example_measurement))))) = 11"
  by (simp add: example_add example_points_window)

subsection \<open>Numbering of the points\<close>

lemma numbered_Nil: "numbered []"
  by (simp add: numbered_def)

lemma numbered_snoc:
  "numbered ps \<Longrightarrow> punto p = int (length ps) + 1 \<Longrightarrow> numbered (ps @ [p])"
  by (simp add: numbered_def)

lemma numbered_distinct: "numbered ps \<Longrightarrow> distinct (map punto ps)"
  by (simp add: numbered_def distinct_map inj_on_def)

lemma handle_numbered:
  assumes "numbered (calibration_data self)"
  shows "numbered (calibration_data (handle pyfloat refresh self ev))"
proof (cases ev)
  case Click_add_point_btn
  from add_calibration_point_cases [of pyfloat refresh self] show ?thesis
  proof
    assume "rejected (fst (add_calibration_point pyfloat refresh self)) \<and>
      snd (add_calibration_point pyfloat refresh self) = self"
    then show ?thesis using assms Click_add_point_btn by simp
  next
    assume "\<exists>d e c ve.
      strip (calib_diametro self) \<noteq> [] \<and> strip (calib_espesor self) \<noteq> [] \<and>
      strip (calib_caudal self) \<noteq> [] \<and> strip (calib_velocidad_equipo self) \<noteq> [] \<and>
      pyfloat (strip (calib_diametro self)) = Some d \<and>
      pyfloat (strip (calib_espesor self)) = Some e \<and>
      pyfloat (strip (calib_caudal self)) = Some c \<and>
      pyfloat (strip (calib_velocidad_equipo self)) = Some ve \<and>
      0 < d \<and> 0 \<le> e \<and> 0 < c \<and> e < d / 2 \<and>
      ((d - 2 * e) / 1000 / 2) ^ 2 < dbl_overflow \<and>
      dbl_underflow < ((d - 2 * e) / 1000 / 2) ^ 2"
    then obtain d e c ve where ok:
      "strip (calib_diametro self) \<noteq> []" "strip (calib_espesor self) \<noteq> []"
      "strip (calib_caudal self) \<noteq> []" "strip (calib_velocidad_equipo self) \<noteq> []"
      "pyfloat (strip (calib_diametro self)) = Some d"
      "pyfloat (strip (calib_espesor self)) = Some e"
      "pyfloat (strip (calib_caudal self)) = Some c"
      "pyfloat (strip (calib_velocidad_equipo self)) = Some ve"
      "0 < d" "0 \<le> e" "0 < c" "e < d / 2"
      "((d - 2 * e) / 1000 / 2) ^ 2 < dbl_overflow"
      "dbl_underflow < ((d - 2 * e) / 1000 / 2) ^ 2"
      by blast
    show ?thesis
      using Click_add_point_btn assms
      by (simp add: add_calibration_point_accepts [OF ok] numbered_snoc
            split: option.splits)
  qed
next
  case (Click_clear_calib_btn reply)
  then show ?thesis using assms by (simp add: clear_calibration_def numbered_Nil)
qed (use assms in simp_all)

text \<open>
  C2 (as the code has it). Whatever the user does, the points held by the session carry
  the numbers 1, 2, ..., n in list order (each number is the count at insertion plus
  one), so the points present at any one time have distinct numbers.
\<close>

theorem session_indices_numbered:
  assumes "numbered (calibration_data self)"
  shows "numbered (calibration_data (run pyfloat refresh self evs)) \<and>
         distinct (map punto (calibration_data (run pyfloat refresh self evs)))"
  using assms
proof (induction evs arbitrary: self)
  case Nil
  then show ?case by (simp add: numbered_distinct)
next
  case (Cons ev evs)
  show ?case
    using Cons.IH [OF handle_numbered [OF Cons.prems, of pyfloat refresh ev]] by simp
qed

theorem session_indices_numbered_witness:
  "numbered (calibration_data init_window) \<and>
   map punto (calibration_data
     (run float_examples refresh_ok init_window
        (example_pipe @ example_point @ example_point))) = [1, 2]"
proof -
  have h: "numbered (calibration_data init_window)"
    by (simp add: init_window_def numbered_Nil)
  let ?w = "run float_examples refresh_ok init_window
              (example_pipe @ example_point @ example_point)"
  have n: "numbered (calibration_data ?w)"
    using session_indices_numbered [OF h, of float_examples refresh_ok
        "example_pipe @ example_point @ example_point"] by simp
  have "length (calibration_data ?w) = 2"
    using example_points_count [OF init_example_pipe(1,2), of 2]
    by (simp add: run_append init_example_pipe numeral_2_eq_2)
  with n have "map punto (calibration_data ?w) = [1, 2]"
    by (simp add: numbered_def numeral_2_eq_2)
  with h show ?thesis by simp
qed

text \<open>
  C2 as stated fails: the first point of a session gets the number 1, and after the
  session is cleared the next point gets the number 1 again.
\<close>

theorem session_index_reused_after_clear:
  "map punto (calibration_data
     (run float_examples refresh_ok init_window (example_pipe @ example_point))) = [1] \<and>
   map punto (calibration_data
     (run float_examples refresh_ok init_window
        (example_pipe @ example_point @ [Click_clear_calib_btn True] @ example_point))) = [1]"
  by (simp add: run_append example_point_step init_example_pipe clear_calibration_def)

subsection \<open>Statistics\<close>

text \<open>
  C8. With no points \<open>update_calibration_plot\<close> builds no statistics (which is not the
  same as statistics that are all zero) and \<open>export_results\<close> only warns. With exactly
  one point the standard deviation is the number 0 and so is the expanded uncertainty,
  in the plot statistics and, when the two pipe fields are numeric, in the report.
\<close>

theorem statistics_small_n:
  "(calibration_data self = [] \<longrightarrow>
      update_calibration_plot self = None \<and>
      update_calibration_plot self \<noteq>
        Some \<lparr>mean_error = 0, std_error = 0, max_error = 0, min_error = 0\<rparr> \<and>
      export_results pyfloat self = Inl (Warning No_hay_datos_de_calibracion_para_exportar)) \<and>
   (length (calibration_data self) = 1 \<longrightarrow>
      (\<exists>st. update_calibration_plot self = Some st \<and>
            std_error st = 0 \<and> incertidumbre_expandida st = 0) \<and>
      (pyfloat (calib_diametro self) \<noteq> None \<and> pyfloat (calib_espesor self) \<noteq> None \<longrightarrow>
       (\<exists>r. export_results pyfloat self = Inr r \<and>
            rep_std_error r = 0 \<and> rep_incertidumbre_expandida r = 0)))"
  by (auto simp: update_calibration_plot_def incertidumbre_expandida_def export_results_def
        Let_def)

theorem statistics_small_n_witness:
  "update_calibration_plot init_window = None \<and>
   export_results float_examples init_window =
     Inl (Warning No_hay_datos_de_calibracion_para_exportar) \<and>
   map_option std_error (update_calibration_plot
     (run float_examples refresh_ok init_window (example_pipe @ example_point))) = Some 0 \<and>
   map_option incertidumbre_expandida (update_calibration_plot
     (run float_examples refresh_ok init_window (example_pipe @ example_point))) = Some 0 \<and>
   map_sum id rep_std_error (export_results float_examples
     (run float_examples refresh_ok init_window (example_pipe @ example_point))) = Inr 0"
proof -
  let ?w = "run float_examples refresh_ok init_window (example_pipe @ example_point)"
  have w: "length (calibration_data ?w) = 1" "calib_diametro ?w = ''114.3''"
    "calib_espesor ?w = ''6.02''"
    by (simp_all add: run_append example_point_step init_example_pipe)
  have p: "float_examples (calib_diametro ?w) \<noteq> None \<and> float_examples (calib_espesor ?w) \<noteq> None"
    by (simp add: w float_examples_values)
  have e: "calibration_data init_window = []"
    by (simp add: init_window_def)
  from statistics_small_n [of init_window float_examples] e
  have a: "update_calibration_plot init_window = None"
    "export_results float_examples init_window =
       Inl (Warning No_hay_datos_de_calibracion_para_exportar)"
    by simp_all
  from statistics_small_n [of ?w float_examples] w(1) p
  obtain st r where "update_calibration_plot ?w = Some st" "std_error st = 0"
    "incertidumbre_expandida st = 0" "export_results float_examples ?w = Inr r"
    "rep_std_error r = 0"
    by blast
  with a show ?thesis by simp
qed

subsection \<open>Pipe geometry\<close>

text \<open>
  What the two methods return on numeric fields with a positive flow: on a pipe that
  passes the checks with its square in range, on a pipe that fails a check, and on a
  pipe that passes the checks with its square out of range.
\<close>

lemma calculate_velocity_accepts:
  assumes "strip (caudal_input self) \<noteq> []" and "strip (diametro_input self) \<noteq> []"
    and "strip (espesor_input self) \<noteq> []"
    and "pyfloat (strip (caudal_input self)) = Some c"
    and "pyfloat (strip (diametro_input self)) = Some d"
    and "pyfloat (strip (espesor_input self)) = Some e"
    and "0 < c" and "0 < d" and "0 \<le> e" and "e < d / 2"
    and "((d - 2 * e) / 1000 / 2) ^ 2 < dbl_overflow"
    and "dbl_underflow < ((d - 2 * e) / 1000 / 2) ^ 2"
  shows "calculate_velocity pyfloat self =
     (None,
      self\<lparr>results_text := Some
        \<lparr>res_caudal = c,
         res_diametro_exterior = d,
         res_espesor = e,
         diametro_interior_mm = d - 2 * e,
         diametro_interior_m = (d - 2 * e) / 1000,
         area_m2 = pi * ((d - 2 * e) / 1000 / 2) ^ 2,
         caudal_m3_s = convert_flow_to_m3_per_s c (caudal_units self),
         velocidad = convert_flow_to_m3_per_s c (caudal_units self) /
                       (pi * ((d - 2 * e) / 1000 / 2) ^ 2),
         analisis = analyze_velocity
                      (convert_flow_to_m3_per_s c (caudal_units self) /
                         (pi * ((d - 2 * e) / 1000 / 2) ^ 2))\<rparr>\<rparr>)"
proof -
  have sq: "pow2 ((d - 2 * e) / 1000 / 2) = Inr (((d - 2 * e) / 1000 / 2) ^ 2)"
    by (rule pow2_in_range [OF assms(11,12)])
  have nz: "pi * ((d - 2 * e) / 1000 / 2) ^ 2 \<noteq> 0"
    by (rule area_nonzero [OF assms(12)])
  have v: "\<not> (c \<le> 0 \<or> d \<le> 0 \<or> e < 0)" "\<not> d / 2 \<le> e"
    using assms(7-10) by auto
  show ?thesis
    unfolding calculate_velocity_def Let_def
    using assms(1-6) v sq nz by simp
qed





lemma example_calculation_fields:
  "caudal_input example_calculation = ''10''"
  "diametro_input example_calculation = ''114.3''"
  "espesor_input example_calculation = ''6.02''"
  "caudal_units example_calculation = 0"
  "results_text example_calculation = None"
  "calib_diametro example_calculation = ''114.3''"
  "calib_espesor example_calculation = ''6.02''"
  "calib_caudal example_calculation = ''10''"
  "calib_velocidad_equipo example_calculation = ''0.35''"
  "calib_caudal_units example_calculation = 0"
  "calibration_data example_calculation = []"
  by (simp_all add: example_calculation_def example_pipe_def example_measurement_def
        init_window_def)









subsection \<open>End-to-end example\<close>

text \<open>
  Bounds on the arctangent from its alternating series, and with Machin's formula the
  first four decimals of pi.
\<close>

lemma arctan_series_bounds:
  fixes x :: real
  assumes "0 \<le> x" and "x \<le> 1"
  shows "(\<Sum>i<2*n. (-1)^i * (1 / real (i * 2 + 1) * x ^ (i * 2 + 1))) \<le> arctan x"
    and "arctan x \<le> (\<Sum>i<2*n+1. (-1)^i * (1 / real (i * 2 + 1) * x ^ (i * 2 + 1)))"
proof -
  let ?a = "\<lambda>i. 1 / real (i * 2 + 1) * x ^ (i * 2 + 1)"
  have abs1: "\<bar>x\<bar> \<le> 1" using assms by simp
  have zero: "?a \<longlonglongrightarrow> 0" by (rule zeroseq_arctan_series [OF abs1])
  have pos: "0 \<le> ?a i" for i using assms by simp
  have mono: "?a (Suc i) \<le> ?a i" for i
  proof -
    have p: "x ^ (Suc i * 2 + 1) \<le> x ^ (i * 2 + 1)"
      using assms by (intro power_decreasing) auto
    have q: "1 / real (Suc i * 2 + 1) \<le> 1 / real (i * 2 + 1)"
      by (intro divide_left_mono) auto
    show ?thesis
      by (rule mult_mono [OF q p]) (use assms in auto)
  qed
  have eq: "arctan x = (\<Sum>i. (-1)^i * ?a i)" by (rule arctan_series [OF abs1])
  show "(\<Sum>i<2*n. (-1)^i * ?a i) \<le> arctan x"
    unfolding eq using summable_Leibniz'(2) [of ?a n, OF zero pos mono] .
  show "arctan x \<le> (\<Sum>i<2*n+1. (-1)^i * ?a i)"
    unfolding eq using summable_Leibniz'(4) [of ?a n, OF zero pos mono] .
qed

lemma pi_bounds: "3.1415 < pi" "pi < 3.1416"
proof -
  have m: "pi = 16 * arctan (1/5) - 4 * arctan (1/239)"
    using machin by simp
  have l5: "(\<Sum>i<2*2. (-1)^i * (1 / real (i * 2 + 1) * (1/5) ^ (i * 2 + 1))) \<le> arctan (1/5::real)"
    by (rule arctan_series_bounds(1)) simp_all
  have u5: "arctan (1/5::real) \<le> (\<Sum>i<2*2+1. (-1)^i * (1 / real (i * 2 + 1) * (1/5) ^ (i * 2 + 1)))"
    by (rule arctan_series_bounds(2)) simp_all
  have l239: "(\<Sum>i<2*1. (-1)^i * (1 / real (i * 2 + 1) * (1/239) ^ (i * 2 + 1))) \<le> arctan (1/239::real)"
    by (rule arctan_series_bounds(1)) simp_all
  have u239: "arctan (1/239::real) \<le> (\<Sum>i<2*0+1. (-1)^i * (1 / real (i * 2 + 1) * (1/239) ^ (i * 2 + 1)))"
    by (rule arctan_series_bounds(2)) simp_all
  have l5': "0.197395 \<le> arctan (1/5::real)"
    using l5 by (simp add: numeral_eq_Suc)
  have u5': "arctan (1/5::real) \<le> 0.1973956"
    using u5 by (simp add: numeral_eq_Suc)
  have l239': "0.004184 \<le> arctan (1/239::real)"
    using l239 by (simp add: numeral_eq_Suc)
  have u239': "arctan (1/239::real) \<le> 0.0041842"
    using u239 by (simp add: numeral_eq_Suc)
  show "3.1415 < pi" using l5' u239' unfolding m by simp
  show "pi < 3.1416" using u5' l239' unfolding m by simp
qed

lemma example_area_bounds:
  "0.008212 < pi * ((114.3 - 2 * 6.02) / 1000 / 2) ^ 2"
  "pi * ((114.3 - 2 * 6.02) / 1000 / 2) ^ 2 < (0.008214::real)"
  using pi_bounds by (simp_all add: power2_eq_square)

lemma example_velocity_bounds:
  "0.33821 < (10 / 3600) / (pi * ((114.3 - 2 * 6.02) / 1000 / 2) ^ 2)"
  "(10 / 3600) / (pi * ((114.3 - 2 * 6.02) / 1000 / 2) ^ 2) < (0.33823::real)"
proof -
  have p: "0 < pi * ((114.3 - 2 * 6.02) / 1000 / 2) ^ 2" by simp
  show "0.33821 < (10 / 3600) / (pi * ((114.3 - 2 * 6.02) / 1000 / 2) ^ 2)"
    using pi_bounds(2) by (simp add: power2_eq_square field_simps)
  show "(10 / 3600) / (pi * ((114.3 - 2 * 6.02) / 1000 / 2) ^ 2) < (0.33823::real)"
    using pi_bounds(1) by (simp add: power2_eq_square field_simps)
qed

text \<open>
  C9 (as the code computes it). For outer diameter 114.3 mm, wall 6.02 mm and 10 m3/h
  the inner diameter is 102.26 mm, the flow area is pi * 0.05113^2, between 0.008212
  and 0.008214 m2 (0.008213 to six decimals), the converted flow is 10/3600, which is
  0.002778 m3/s to six decimals, the velocity lies between 0.33821 and 0.33823 m/s
  (0.3382 to four decimals), and the regime is BAJA.
\<close>

theorem example_114_3_velocity:
  assumes "caudal_input self = ''10''" and "diametro_input self = ''114.3''"
    and "espesor_input self = ''6.02''" and "caudal_units self = 0"
    and "pyfloat ''10'' = Some 10" and "pyfloat ''114.3'' = Some 114.3"
    and "pyfloat ''6.02'' = Some 6.02"
  shows "fst (calculate_velocity pyfloat self) = None \<and>
    (\<exists>r. results_text (snd (calculate_velocity pyfloat self)) = Some r \<and>
         diametro_interior_mm r = 102.26 \<and>
         area_m2 r = pi * 0.05113 ^ 2 \<and>
         0.008212 < area_m2 r \<and> area_m2 r < 0.008214 \<and>
         caudal_m3_s r = 10 / 3600 \<and>
         0.0027775 < caudal_m3_s r \<and> caudal_m3_s r < 0.0027785 \<and>
         0.33821 < velocidad r \<and> velocidad r < 0.33823 \<and>
         analisis r = BAJA)"
proof -
  have a: "calculate_velocity pyfloat self =
     (None,
      self\<lparr>results_text := Some
        \<lparr>res_caudal = 10,
         res_diametro_exterior = 114.3,
         res_espesor = 6.02,
         diametro_interior_mm = 114.3 - 2 * 6.02,
         diametro_interior_m = (114.3 - 2 * 6.02) / 1000,
         area_m2 = pi * ((114.3 - 2 * 6.02) / 1000 / 2) ^ 2,
         caudal_m3_s = convert_flow_to_m3_per_s 10 (caudal_units self),
         velocidad = convert_flow_to_m3_per_s 10 (caudal_units self) /
                       (pi * ((114.3 - 2 * 6.02) / 1000 / 2) ^ 2),
         analisis = analyze_velocity
                      (convert_flow_to_m3_per_s 10 (caudal_units self) /
                         (pi * ((114.3 - 2 * 6.02) / 1000 / 2) ^ 2))\<rparr>\<rparr>)"
    by (rule calculate_velocity_accepts)
       (simp_all add: assms strip_examples example_pipe_in_range)
  have q: "convert_flow_to_m3_per_s 10 (caudal_units self) = 10 / 3600"
    by (simp add: assms(4) convert_flow_to_m3_per_s_def conversions_def)
  have d: "((114.3 - 2 * 6.02) / 1000 / 2 :: real) = 0.05113" by simp
  have lt: "(10 / 3600) / (pi * ((114.3 - 2 * 6.02) / 1000 / 2) ^ 2) < (0.5::real)"
    by (rule less_trans [OF example_velocity_bounds(2)]) simp
  have low: "analyze_velocity ((10 / 3600) / (pi * ((114.3 - 2 * 6.02) / 1000 / 2) ^ 2)) = BAJA"
    unfolding analyze_velocity_def using lt by (simp only: if_True)
  show ?thesis
    unfolding a q
    using example_area_bounds example_velocity_bounds low
    by (simp add: d)
qed

theorem example_114_3_velocity_witness:
  "caudal_input example_calculation = ''10'' \<and>
   diametro_input example_calculation = ''114.3'' \<and>
   espesor_input example_calculation = ''6.02'' \<and>
   caudal_units example_calculation = 0 \<and>
   float_examples ''10'' = Some 10 \<and> float_examples ''114.3'' = Some 114.3 \<and>
   float_examples ''6.02'' = Some 6.02 \<and>
   fst (calculate_velocity float_examples example_calculation) = None \<and>
   map_option analisis (results_text (snd (calculate_velocity float_examples
     example_calculation))) = Some BAJA \<and>
   map_option diametro_interior_mm (results_text (snd (calculate_velocity float_examples
     example_calculation))) = Some 102.26"
proof -
  have h: "caudal_input example_calculation = ''10''"
    "diametro_input example_calculation = ''114.3''"
    "espesor_input example_calculation = ''6.02''"
    "caudal_units example_calculation = 0"
    "float_examples ''10'' = Some 10" "float_examples ''114.3'' = Some 114.3"
    "float_examples ''6.02'' = Some 6.02"
    by (simp_all add: example_calculation_fields float_examples_values)
  from example_114_3_velocity [OF h] obtain r where
    "fst (calculate_velocity float_examples example_calculation) = None"
    "results_text (snd (calculate_velocity float_examples example_calculation)) = Some r"
    "diametro_interior_mm r = 102.26" "analisis r = BAJA"
    by blast
  with h show ?thesis by simp
qed

text \<open>
  C9 as stated fails in its decimals: the computed velocity is above 0.3382 m/s, more
  than 0.0001 away from the stated 0.3381, and the computed area is below 0.008214 m2,
  more than 0.000001 away from the stated 0.008215.
\<close>

theorem example_114_3_velocity_is_not_0_3381:
  "results_text (snd (calculate_velocity float_examples example_calculation)) \<noteq> None \<and>
   0.3382 < velocidad (the (results_text (snd (calculate_velocity float_examples
     example_calculation)))) \<and>
   area_m2 (the (results_text (snd (calculate_velocity float_examples
     example_calculation)))) < 0.008214"
proof -
  have a: "calculate_velocity float_examples example_calculation =
     (None,
      example_calculation\<lparr>results_text := Some
        \<lparr>res_caudal = 10,
         res_diametro_exterior = 114.3,
         res_espesor = 6.02,
         diametro_interior_mm = 114.3 - 2 * 6.02,
         diametro_interior_m = (114.3 - 2 * 6.02) / 1000,
         area_m2 = pi * ((114.3 - 2 * 6.02) / 1000 / 2) ^ 2,
         caudal_m3_s = convert_flow_to_m3_per_s 10 (caudal_units example_calculation),
         velocidad = convert_flow_to_m3_per_s 10 (caudal_units example_calculation) /
                       (pi * ((114.3 - 2 * 6.02) / 1000 / 2) ^ 2),
         analisis = analyze_velocity
                      (convert_flow_to_m3_per_s 10 (caudal_units example_calculation) /
                         (pi * ((114.3 - 2 * 6.02) / 1000 / 2) ^ 2))\<rparr>\<rparr>)"
    by (rule calculate_velocity_accepts)
       (simp_all add: example_calculation_fields strip_examples float_examples_values
          example_pipe_in_range)
  have q: "convert_flow_to_m3_per_s 10 (caudal_units example_calculation) = 10 / 3600"
    by (simp add: example_calculation_fields convert_flow_to_m3_per_s_def conversions_def)
  have v: "(0.3382::real) < (10 / 3600) / (pi * ((114.3 - 2 * 6.02) / 1000 / 2) ^ 2)"
    by (rule less_trans [OF _ example_velocity_bounds(1)]) simp
  show ?thesis
    unfolding a q using v example_area_bounds(2) by simp
qed

end
